theory Spec2Isabelle
  imports Complex_Main "HOL-Library.Word"
begin

unbundle bit_operations_syntax

section \<open>The athlete resource of the workout API\<close>

text \<open>
  A shallow embedding of \<^verbatim>\<open>workout_api/atleta/controller.py\<close>: the six handlers
  \<^verbatim>\<open>post\<close>, \<^verbatim>\<open>query_all\<close>, \<^verbatim>\<open>query_by_name_or_cpf\<close>, \<^verbatim>\<open>query_by_id\<close>,
  \<^verbatim>\<open>patch\<close> and \<^verbatim>\<open>delete\<close>. Each handler is a function from the request-scoped database
  session to its result and the session it leaves behind. An exception is a value: the
  result type is \<open>failure + 'a\<close>, where a \<open>failure\<close> is the \<^verbatim>\<open>HTTPException\<close> the handler
  raises itself or an exception of the store that it lets escape.
\<close>

subsection \<open>Values\<close>

text \<open>
  A \<^verbatim>\<open>UUID\<close> is a 128-bit value, a timestamp is a count of microseconds, a Python \<^verbatim>\<open>str\<close>
  is the list of the bytes of its UTF-8 encoding. Weight and height are only ever stored
  and copied, never computed with.
\<close>

type_synonym uuid = "128 word"
type_synonym datetime = int
type_synonym scalar = real

definition hex32 :: "uuid \<Rightarrow> string" where
  "hex32 u = map (\<lambda>k. ''0123456789abcdef'' ! unat (drop_bit (4 * k) u AND 15)) (rev [0..<32])"

text \<open>\<^verbatim>\<open>str(id)\<close>, as the f-strings of the handlers format an identifier: 8-4-4-4-12 hex digits.\<close>

definition str_uuid :: "uuid \<Rightarrow> string" where
  "str_uuid u =
     (let h = hex32 u
      in take 8 h @ ''-'' @ take 4 (drop 8 h) @ ''-'' @ take 4 (drop 12 h) @ ''-''
         @ take 4 (drop 16 h) @ ''-'' @ drop 20 h)"

subsection \<open>Schemas and tables\<close>

text \<open>
  Modelled from the spec: the request and response schemas \<^verbatim>\<open>AtletaIn\<close>, \<^verbatim>\<open>AtletaOut\<close>
  and \<^verbatim>\<open>AtletaUpdate\<close> (\<^verbatim>\<open>workout_api/atleta/schemas.py\<close>) and the tables
  \<^verbatim>\<open>AtletaModel\<close>, \<^verbatim>\<open>CategoriaModel\<close> and \<^verbatim>\<open>CentroTreinamentoModel\<close> are imported by the
  controller but are not part of the source at hand. Their fields are the ones of the
  data model of the specification: name, national id (cpf), weight, height, sex, the
  names of the category and of the training centre on input, their keys in the table.
  The nested objects \<^verbatim>\<open>atleta_in.categoria\<close> and \<^verbatim>\<open>atleta_in.centro_treinamento\<close> have the
  single attribute \<^verbatim>\<open>nome\<close>, which is what the fields \<open>categoria\<close> and
  \<open>centro_treinamento\<close> hold. The columns of \<^verbatim>\<open>AtletaModel\<close> carry the prefix \<open>m_\<close>, those
  of the two other tables \<open>cat_\<close> and \<open>ct_\<close>, to keep the field names apart.
\<close>

record atleta_in =
  nome :: string
  cpf :: string
  peso :: scalar
  altura :: scalar
  sexo :: string
  categoria :: string
  centro_treinamento :: string

record atleta_out = atleta_in +
  id' :: uuid
  created_at :: datetime

text \<open>
  Modelled from the spec: a sparse patch. A field that the request body does not mention
  is \<open>None\<close> (pydantic's unset), a field that it mentions is \<open>Some\<close> of the new value.
\<close>

record atleta_update =
  up_nome :: "string option"
  up_cpf :: "string option"
  up_peso :: "scalar option"
  up_altura :: "scalar option"
  up_sexo :: "string option"

record categoria_model =
  cat_pk_id :: int
  cat_nome :: string

record centro_treinamento_model =
  ct_pk_id :: int
  ct_nome :: string

record atleta_model =
  m_id :: uuid
  m_created_at :: datetime
  m_nome :: string
  m_cpf :: string
  m_peso :: scalar
  m_altura :: scalar
  m_sexo :: string
  categoria_id :: int
  centro_treinamento_id :: int

text \<open>The committed content of the relational store; a table lists its rows in insertion order.\<close>

record db =
  categorias :: "categoria_model list"
  centros_treinamento :: "centro_treinamento_model list"
  atletas :: "atleta_model list"

subsection \<open>Exceptions\<close>

text \<open>
  \<open>IntegrityError\<close> is the store's signal of a violated constraint. \<open>OperationalError\<close>
  stands for every other exception of the persistence layer, \<open>AttributeError\<close> for Python's
  attribute access on \<^verbatim>\<open>None\<close>.
\<close>

datatype exc = IntegrityError | OperationalError | AttributeError

datatype failure = HTTPException nat string | Unhandled exc

subsection \<open>The relational store\<close>

text \<open>
  The statements the handlers build with \<^verbatim>\<open>select\<close>, \<^verbatim>\<open>filter_by\<close>, \<^verbatim>\<open>filter\<close>, \<^verbatim>\<open>limit\<close>
  and \<^verbatim>\<open>offset\<close>.
\<close>

datatype criterion = NomeEq string | CpfEq string | IdEq uuid

datatype query =
    SelectCategoria string
  | SelectCentroTreinamento string
  | SelectAtleta "criterion list" "(int \<times> int) option"

text \<open>The calls a handler makes on its session, in order.\<close>

datatype call = Execute query | Add | DeleteObj | Commit | Refresh

text \<open>
  A change staged in the session's unit of work. The ORM addresses a loaded row by its
  primary key, which the store keeps unique; here a loaded row is addressed by its
  position in the table.
\<close>

datatype change = Insert atleta_model | Update nat atleta_model | Remove nat

record session =
  store :: db
  pending :: "change list"
  calls :: "call list"

text \<open>The session provider hands every request a fresh session on the committed store.\<close>

definition open_session :: "db \<Rightarrow> session" where
  "open_session d = \<lparr>store = d, pending = [], calls = []\<rparr>"

definition remove_nth :: "nat \<Rightarrow> 'a list \<Rightarrow> 'a list" where
  "remove_nth i xs = take i xs @ drop (Suc i) xs"

text \<open>
  Modelled from the spec: the store enforces the uniqueness of the national id, on an
  insert and on an update that changes it, and signals a violation when the change is
  flushed. A change of a row that is no longer there fails.
\<close>

fun apply_change :: "db \<Rightarrow> change \<Rightarrow> exc + db" where
  "apply_change d (Insert m) =
     (if m_cpf m \<in> set (map m_cpf (atletas d)) then Inl IntegrityError
      else Inr (d\<lparr>atletas := atletas d @ [m]\<rparr>))"
| "apply_change d (Update i m) =
     (if length (atletas d) \<le> i then Inl OperationalError
      else if m_cpf m \<noteq> m_cpf (atletas d ! i) \<and> m_cpf m \<in> set (map m_cpf (atletas d))
      then Inl IntegrityError
      else Inr (d\<lparr>atletas := (atletas d)[i := m]\<rparr>))"
| "apply_change d (Remove i) =
     (if length (atletas d) \<le> i then Inl OperationalError
      else Inr (d\<lparr>atletas := remove_nth i (atletas d)\<rparr>))"

fun flush :: "db \<Rightarrow> change list \<Rightarrow> exc + db" where
  "flush d [] = Inr d"
| "flush d (c # cs) = (case apply_change d c of Inl e \<Rightarrow> Inl e | Inr d' \<Rightarrow> flush d' cs)"

text \<open>
  \<^verbatim>\<open>db_session.commit()\<close>. The transaction is atomic: either every staged change reaches
  the store or none does. \<open>fault\<close> is the environment: \<open>Some e\<close> when the store fails the
  commit with \<open>e\<close> for a reason of its own (a lost connection, say), \<open>None\<close> when the store
  is healthy and only its constraints can reject the transaction.
\<close>

definition commit :: "exc option \<Rightarrow> session \<Rightarrow> (exc + unit) \<times> session" where
  "commit fault s =
     (let s' = s\<lparr>pending := [], calls := calls s @ [Commit]\<rparr>
      in case fault of
           Some e \<Rightarrow> (Inl e, s')
         | None \<Rightarrow>
             (case flush (store s) (pending s) of
                Inl e \<Rightarrow> (Inl e, s')
              | Inr d \<Rightarrow> (Inr (), s'\<lparr>store := d\<rparr>)))"

definition add :: "atleta_model \<Rightarrow> session \<Rightarrow> session" where
  "add m s = s\<lparr>pending := pending s @ [Insert m], calls := calls s @ [Add]\<rparr>"

definition delete_obj :: "nat \<Rightarrow> session \<Rightarrow> session" where
  "delete_obj i s = s\<lparr>pending := pending s @ [Remove i], calls := calls s @ [DeleteObj]\<rparr>"

text \<open>\<^verbatim>\<open>.scalars().first()\<close>: the first row of a result, or \<^verbatim>\<open>None\<close>.\<close>

definition first :: "'a list \<Rightarrow> 'a option" where
  "first rows = (case rows of [] \<Rightarrow> None | r # _ \<Rightarrow> Some r)"

definition execute_categoria :: "string \<Rightarrow> session \<Rightarrow> categoria_model list \<times> session" where
  "execute_categoria n s =
     (filter (\<lambda>c. cat_nome c = n) (categorias (store s)),
      s\<lparr>calls := calls s @ [Execute (SelectCategoria n)]\<rparr>)"

definition execute_centro_treinamento ::
  "string \<Rightarrow> session \<Rightarrow> centro_treinamento_model list \<times> session" where
  "execute_centro_treinamento n s =
     (filter (\<lambda>c. ct_nome c = n) (centros_treinamento (store s)),
      s\<lparr>calls := calls s @ [Execute (SelectCentroTreinamento n)]\<rparr>)"

fun matches :: "atleta_model \<Rightarrow> criterion \<Rightarrow> bool" where
  "matches a (NomeEq n) = (m_nome a = n)"
| "matches a (CpfEq c) = (m_cpf a = c)"
| "matches a (IdEq u) = (m_id a = u)"

text \<open>The rows of the athlete table that meet every criterion, each with its position.\<close>

definition filtered :: "db \<Rightarrow> criterion list \<Rightarrow> (nat \<times> atleta_model) list" where
  "filtered d cs = filter (\<lambda>(i, a). list_all (matches a) cs) (enumerate 0 (atletas d))"

text \<open>
  \<^verbatim>\<open>LIMIT l OFFSET o\<close>. The handlers pass the integers of the request on unchecked. The
  store's integers have 64 bits: a bound below \<open>-2^63\<close> or from \<open>2^63\<close> on cannot be
  bound to the statement, and the execution raises. What a negative bound means is up
  to the store (PostgreSQL rejects the statement, SQLite reads a negative limit as no
  limit); that behaviour is the parameter \<open>neg\<close>. On the other bounds the store skips \<open>o\<close>
  rows and returns at most \<open>l\<close>.
\<close>

type_synonym 'a bounds_policy = "int \<Rightarrow> int \<Rightarrow> 'a list \<Rightarrow> exc + 'a list"

definition int64_max :: int where
  "int64_max = 9223372036854775807"

definition limit_offset :: "'a bounds_policy \<Rightarrow> int \<Rightarrow> int \<Rightarrow> 'a list \<Rightarrow> exc + 'a list" where
  "limit_offset neg l o' rows =
     (if l < - int64_max - 1 \<or> int64_max < l \<or> o' < - int64_max - 1 \<or> int64_max < o'
      then Inl OperationalError
      else if 0 \<le> l \<and> 0 \<le> o' then Inr (take (nat l) (drop (nat o') rows))
      else neg l o' rows)"

text \<open>The policy of a store that rejects a negative bound, and of one that ignores it.\<close>

definition rejects_negative :: "'a bounds_policy" where
  "rejects_negative l o' rows = Inl OperationalError"

definition ignores_negative :: "'a bounds_policy" where
  "ignores_negative l o' rows =
     (let rest = (if 0 \<le> o' then drop (nat o') rows else rows)
      in Inr (if 0 \<le> l then take (nat l) rest else rest))"

definition execute_atleta ::
  "(nat \<times> atleta_model) bounds_policy \<Rightarrow> criterion list \<Rightarrow> (int \<times> int) option \<Rightarrow> session
     \<Rightarrow> (exc + (nat \<times> atleta_model) list) \<times> session" where
  "execute_atleta neg cs page s =
     (case page of
        None \<Rightarrow> Inr (filtered (store s) cs)
      | Some (l, o') \<Rightarrow> limit_offset neg l o' (filtered (store s) cs),
      s\<lparr>calls := calls s @ [Execute (SelectAtleta cs page)]\<rparr>)"

text \<open>
  \<^verbatim>\<open>db_session.refresh(atleta)\<close> reads the row again; it fails when the row is gone.
\<close>

definition refresh :: "nat \<Rightarrow> session \<Rightarrow> (exc + atleta_model) \<times> session" where
  "refresh i s =
     (if i < length (atletas (store s)) then Inr (atletas (store s) ! i)
      else Inl OperationalError,
      s\<lparr>calls := calls s @ [Refresh]\<rparr>)"

subsection \<open>The handlers\<close>

text \<open>The messages of the handlers; the bytes above 127 are the UTF-8 of the accented letters.\<close>

definition categoria_nao_encontrada :: "string \<Rightarrow> string" where
  "categoria_nao_encontrada n =
     ''A categoria '' @ n @ '' n'' @ [CHR 0xC3, CHR 0xA3] @ ''o foi encontrada.''"

definition centro_nao_encontrado :: "string \<Rightarrow> string" where
  "centro_nao_encontrado n =
     ''O centro de treinamento '' @ n @ '' n'' @ [CHR 0xC3, CHR 0xA3] @ ''o foi encontrado.''"

definition cpf_ja_cadastrado :: "string \<Rightarrow> string" where
  "cpf_ja_cadastrado c =
     ''J'' @ [CHR 0xC3, CHR 0xA1] @ '' existe um atleta cadastrado com o cpf: '' @ c"

definition erro_ao_inserir :: string where
  "erro_ao_inserir = ''Ocorreu um erro ao inserir os dados no banco''"

definition nenhum_atleta :: string where
  "nenhum_atleta =
     ''Nenhum atleta encontrado com o crit'' @ [CHR 0xC3, CHR 0xA9] @ ''rio fornecido.''"

definition atleta_nao_encontrado :: "uuid \<Rightarrow> string" where
  "atleta_nao_encontrado u =
     ''Atleta n'' @ [CHR 0xC3, CHR 0xA3] @ ''o encontrado com o ID: '' @ str_uuid u"

text \<open>
  \<^verbatim>\<open>AtletaOut(id=uuid4(), created_at=datetime.utcnow(), **atleta_in.model_dump())\<close>: the
  identifier and the timestamp come from the environment, everything else from the body.
\<close>

definition AtletaOut :: "uuid \<Rightarrow> datetime \<Rightarrow> atleta_in \<Rightarrow> atleta_out" where
  "AtletaOut u t a = atleta_in.extend a (atleta_out.fields u t)"

text \<open>
  \<^verbatim>\<open>AtletaModel(**atleta_out.model_dump(exclude={'categoria', 'centro_treinamento'}))\<close>
  followed by the two assignments of the foreign keys.
\<close>

definition AtletaModel :: "atleta_out \<Rightarrow> int \<Rightarrow> int \<Rightarrow> atleta_model" where
  "AtletaModel out cat_pk ct_pk =
     \<lparr>m_id = id' out, m_created_at = created_at out, m_nome = nome out, m_cpf = cpf out,
      m_peso = peso out, m_altura = altura out, m_sexo = sexo out,
      categoria_id = cat_pk, centro_treinamento_id = ct_pk\<rparr>"

text \<open>
  \<^verbatim>\<open>post\<close>. \<open>new_id\<close> and \<open>now\<close> are what \<^verbatim>\<open>uuid4()\<close> and \<^verbatim>\<open>datetime.utcnow()\<close> return.
\<close>

definition post ::
  "uuid \<Rightarrow> datetime \<Rightarrow> exc option \<Rightarrow> atleta_in \<Rightarrow> session \<Rightarrow> (failure + atleta_out) \<times> session" where
  "post new_id now fault atleta_in s0 =
     (let categoria_nome = categoria atleta_in;
          centro_treinamento_nome = centro_treinamento atleta_in;
          (rows, s1) = execute_categoria categoria_nome s0
      in case first rows of
           None \<Rightarrow> (Inl (HTTPException 400 (categoria_nao_encontrada categoria_nome)), s1)
         | Some cat_row \<Rightarrow>
             (let (rows', s2) = execute_centro_treinamento centro_treinamento_nome s1
              in case first rows' of
                   None \<Rightarrow>
                     (Inl (HTTPException 400 (centro_nao_encontrado centro_treinamento_nome)), s2)
                 | Some ct_row \<Rightarrow>
                     (let atleta_out = AtletaOut new_id now atleta_in;
                          atleta_model =
                            AtletaModel atleta_out (cat_pk_id cat_row) (ct_pk_id ct_row);
                          s3 = add atleta_model s2
                      in case commit fault s3 of
                           (Inl IntegrityError, s4) \<Rightarrow>
                             (Inl (HTTPException 303 (cpf_ja_cadastrado (cpf atleta_in))), s4)
                         | (Inl _, s4) \<Rightarrow> (Inl (HTTPException 500 erro_ao_inserir), s4)
                         | (Inr _, s4) \<Rightarrow> (Inr atleta_out, s4))))"

text \<open>
  The relationships \<^verbatim>\<open>atleta.centro_treinamento\<close> and \<^verbatim>\<open>atleta.categoria\<close> load the row the
  foreign key points to, or \<^verbatim>\<open>None\<close>; \<^verbatim>\<open>.nome\<close> on \<^verbatim>\<open>None\<close> raises.
\<close>

definition atleta_dict :: "db \<Rightarrow> atleta_model \<Rightarrow> exc + (string \<times> string) list" where
  "atleta_dict d atleta =
     (case first (filter (\<lambda>c. ct_pk_id c = centro_treinamento_id atleta) (centros_treinamento d)) of
        None \<Rightarrow> Inl AttributeError
      | Some ct_row \<Rightarrow>
          (case first (filter (\<lambda>c. cat_pk_id c = categoria_id atleta) (categorias d)) of
             None \<Rightarrow> Inl AttributeError
           | Some cat_row \<Rightarrow>
               Inr [(''nome'', m_nome atleta),
                    (''centro_treinamento'', ct_nome ct_row),
                    (''categoria'', cat_nome cat_row)]))"

text \<open>The loop that appends one dictionary per athlete; it stops at the first exception.\<close>

fun atletas_response :: "db \<Rightarrow> atleta_model list \<Rightarrow> exc + (string \<times> string) list list" where
  "atletas_response d [] = Inr []"
| "atletas_response d (atleta # rest) =
     (case atleta_dict d atleta of
        Inl e \<Rightarrow> Inl e
      | Inr x \<Rightarrow> (case atletas_response d rest of Inl e \<Rightarrow> Inl e | Inr xs \<Rightarrow> Inr (x # xs)))"

definition query_all ::
  "(nat \<times> atleta_model) bounds_policy \<Rightarrow> int \<Rightarrow> int \<Rightarrow> session
     \<Rightarrow> (failure + (string \<times> string) list list) \<times> session" where
  "query_all neg limit offset s0 =
     (case execute_atleta neg [] (Some (limit, offset)) s0 of
        (Inl e, s1) \<Rightarrow> (Inl (Unhandled e), s1)
      | (Inr rows, s1) \<Rightarrow>
          (case atletas_response (store s1) (map snd rows) of
             Inl e \<Rightarrow> (Inl (Unhandled e), s1)
           | Inr response \<Rightarrow> (Inr response, s1)))"

text \<open>Python's truth value of an optional string: \<^verbatim>\<open>None\<close> and \<^verbatim>\<open>''\<close> are false.\<close>

definition truthy :: "string option \<Rightarrow> bool" where
  "truthy v = (case v of None \<Rightarrow> False | Some s \<Rightarrow> s \<noteq> [])"

definition search_criteria :: "string option \<Rightarrow> string option \<Rightarrow> criterion list" where
  "search_criteria nome' cpf' =
     (if truthy nome' then [NomeEq (the nome')] else []) @
     (if truthy cpf' then [CpfEq (the cpf')] else [])"

definition query_by_name_or_cpf ::
  "(nat \<times> atleta_model) bounds_policy \<Rightarrow> string option \<Rightarrow> string option \<Rightarrow> int \<Rightarrow> int \<Rightarrow> session
     \<Rightarrow> (failure + (string \<times> string) list list) \<times> session" where
  "query_by_name_or_cpf neg nome' cpf' limit offset s0 =
     (case execute_atleta neg (search_criteria nome' cpf') (Some (limit, offset)) s0 of
        (Inl e, s1) \<Rightarrow> (Inl (Unhandled e), s1)
      | (Inr rows, s1) \<Rightarrow>
          (case atletas_response (store s1) (map snd rows) of
             Inl e \<Rightarrow> (Inl (Unhandled e), s1)
           | Inr response \<Rightarrow>
               if response = [] then (Inl (HTTPException 404 nenhum_atleta), s1)
               else (Inr response, s1)))"

definition query_by_id :: "uuid \<Rightarrow> session \<Rightarrow> (failure + atleta_model) \<times> session" where
  "query_by_id u s0 =
     (case execute_atleta rejects_negative [IdEq u] None s0 of
        (Inl e, s1) \<Rightarrow> (Inl (Unhandled e), s1)
      | (Inr rows, s1) \<Rightarrow>
          (case first rows of
             None \<Rightarrow> (Inl (HTTPException 404 (atleta_nao_encontrado u)), s1)
           | Some (i, atleta) \<Rightarrow> (Inr atleta, s1)))"

text \<open>
  \<^verbatim>\<open>atleta_up.model_dump(exclude_unset=True)\<close>: the fields the body mentions, as the pairs
  of a dictionary, and \<^verbatim>\<open>setattr\<close> for one of them.
\<close>

datatype attr = Nome string | Cpf string | Peso scalar | Altura scalar | Sexo string

definition model_dump_exclude_unset :: "atleta_update \<Rightarrow> attr list" where
  "model_dump_exclude_unset up =
     (case up_nome up of None \<Rightarrow> [] | Some v \<Rightarrow> [Nome v]) @
     (case up_cpf up of None \<Rightarrow> [] | Some v \<Rightarrow> [Cpf v]) @
     (case up_peso up of None \<Rightarrow> [] | Some v \<Rightarrow> [Peso v]) @
     (case up_altura up of None \<Rightarrow> [] | Some v \<Rightarrow> [Altura v]) @
     (case up_sexo up of None \<Rightarrow> [] | Some v \<Rightarrow> [Sexo v])"

fun setattr :: "atleta_model \<Rightarrow> attr \<Rightarrow> atleta_model" where
  "setattr a (Nome v) = a\<lparr>m_nome := v\<rparr>"
| "setattr a (Cpf v) = a\<lparr>m_cpf := v\<rparr>"
| "setattr a (Peso v) = a\<lparr>m_peso := v\<rparr>"
| "setattr a (Altura v) = a\<lparr>m_altura := v\<rparr>"
| "setattr a (Sexo v) = a\<lparr>m_sexo := v\<rparr>"

text \<open>
  \<^verbatim>\<open>patch\<close>. The loop of \<^verbatim>\<open>setattr\<close> changes the loaded object, which the unit of work
  records as an update of its row; the commit flushes it.
\<close>

definition patch ::
  "exc option \<Rightarrow> uuid \<Rightarrow> atleta_update \<Rightarrow> session \<Rightarrow> (failure + atleta_model) \<times> session" where
  "patch fault u atleta_up s0 =
     (case execute_atleta rejects_negative [IdEq u] None s0 of
        (Inl e, s1) \<Rightarrow> (Inl (Unhandled e), s1)
      | (Inr rows, s1) \<Rightarrow>
          (case first rows of
             None \<Rightarrow> (Inl (HTTPException 404 (atleta_nao_encontrado u)), s1)
           | Some (i, atleta) \<Rightarrow>
               (let atleta_update = model_dump_exclude_unset atleta_up;
                    atleta' = foldl setattr atleta atleta_update;
                    s2 = s1\<lparr>pending := pending s1 @ [Update i atleta']\<rparr>
                in case commit fault s2 of
                     (Inl e, s3) \<Rightarrow> (Inl (Unhandled e), s3)
                   | (Inr _, s3) \<Rightarrow>
                       (case refresh i s3 of
                          (Inl e, s4) \<Rightarrow> (Inl (Unhandled e), s4)
                        | (Inr atleta'', s4) \<Rightarrow> (Inr atleta'', s4)))))"

definition delete :: "exc option \<Rightarrow> uuid \<Rightarrow> session \<Rightarrow> (failure + unit) \<times> session" where
  "delete fault u s0 =
     (case execute_atleta rejects_negative [IdEq u] None s0 of
        (Inl e, s1) \<Rightarrow> (Inl (Unhandled e), s1)
      | (Inr rows, s1) \<Rightarrow>
          (case first rows of
             None \<Rightarrow> (Inl (HTTPException 404 (atleta_nao_encontrado u)), s1)
           | Some (i, atleta) \<Rightarrow>
               (let s2 = delete_obj i s1
                in case commit fault s2 of
                     (Inl e, s3) \<Rightarrow> (Inl (Unhandled e), s3)
                   | (Inr _, s3) \<Rightarrow> (Inr (), s3))))"

subsection \<open>The routes\<close>

text \<open>
  What the framework sends for the outcome of a handler: the status and detail of an
  \<^verbatim>\<open>HTTPException\<close>, 500 for an exception that escaped, or the status of the route's
  decorator with the value returned.
\<close>

definition respond :: "nat \<Rightarrow> failure + 'a \<Rightarrow> nat \<times> (string + 'a)" where
  "respond status_code r =
     (case r of
        Inl (HTTPException c detail) \<Rightarrow> (c, Inl detail)
      | Inl (Unhandled e) \<Rightarrow> (500, Inl ''Internal Server Error'')
      | Inr v \<Rightarrow> (status_code, Inr v))"

text \<open>
  A request: a fresh session on the store, the handler, the response, and the store the
  request leaves behind. The query parameters \<^verbatim>\<open>limit\<close> and \<^verbatim>\<open>offset\<close> default to 10
  and 0.
\<close>

definition Query :: "'a \<Rightarrow> 'a option \<Rightarrow> 'a" where
  "Query dflt v = (case v of None \<Rightarrow> dflt | Some x \<Rightarrow> x)"

definition POST_atletas ::
  "uuid \<Rightarrow> datetime \<Rightarrow> exc option \<Rightarrow> atleta_in \<Rightarrow> db \<Rightarrow> (nat \<times> (string + atleta_out)) \<times> db" where
  "POST_atletas new_id now fault body d =
     (let (r, s) = post new_id now fault body (open_session d) in (respond 201 r, store s))"

definition GET_atletas ::
  "(nat \<times> atleta_model) bounds_policy \<Rightarrow> int option \<Rightarrow> int option \<Rightarrow> db
     \<Rightarrow> nat \<times> (string + (string \<times> string) list list)" where
  "GET_atletas neg limit offset d =
     respond 200 (fst (query_all neg (Query 10 limit) (Query 0 offset) (open_session d)))"

definition GET_atletas_search ::
  "(nat \<times> atleta_model) bounds_policy \<Rightarrow> string option \<Rightarrow> string option \<Rightarrow> int option \<Rightarrow> int option
     \<Rightarrow> db \<Rightarrow> nat \<times> (string + (string \<times> string) list list)" where
  "GET_atletas_search neg nome' cpf' limit offset d =
     respond 200 (fst (query_by_name_or_cpf neg nome' cpf' (Query 10 limit) (Query 0 offset)
                         (open_session d)))"

definition GET_atleta :: "uuid \<Rightarrow> db \<Rightarrow> nat \<times> (string + atleta_model)" where
  "GET_atleta u d = respond 200 (fst (query_by_id u (open_session d)))"

definition PATCH_atleta ::
  "exc option \<Rightarrow> uuid \<Rightarrow> atleta_update \<Rightarrow> db \<Rightarrow> (nat \<times> (string + atleta_model)) \<times> db" where
  "PATCH_atleta fault u body d =
     (let (r, s) = patch fault u body (open_session d) in (respond 200 r, store s))"

definition DELETE_atleta :: "exc option \<Rightarrow> uuid \<Rightarrow> db \<Rightarrow> (nat \<times> (string + unit)) \<times> db" where
  "DELETE_atleta fault u d =
     (let (r, s) = delete fault u (open_session d) in (respond 204 r, store s))"

subsection \<open>The invariant of the foreign keys, and sample data\<close>

text \<open>
  Every athlete points to a category and to a training centre that are in the store.
\<close>

definition fk_ok :: "db \<Rightarrow> bool" where
  "fk_ok d =
     list_all (\<lambda>a. categoria_id a \<in> cat_pk_id ` set (categorias d) \<and>
                    centro_treinamento_id a \<in> ct_pk_id ` set (centros_treinamento d))
       (atletas d)"

text \<open>A store with one category, one training centre and no athlete, and a request body.\<close>

definition db0 :: db where
  "db0 = \<lparr>categorias = [\<lparr>cat_pk_id = 1, cat_nome = ''Scale''\<rparr>],
          centros_treinamento = [\<lparr>ct_pk_id = 7, ct_nome = ''Box1''\<rparr>],
          atletas = []\<rparr>"

definition ana :: atleta_in where
  "ana = \<lparr>nome = ''Ana'', cpf = ''111'', peso = 60, altura = 2, sexo = ''F'',
          categoria = ''Scale'', centro_treinamento = ''Box1''\<rparr>"

definition ana_row :: atleta_model where
  "ana_row = \<lparr>m_id = 5, m_created_at = 100, m_nome = ''Ana'', m_cpf = ''111'', m_peso = 60,
              m_altura = 2, m_sexo = ''F'', categoria_id = 1, centro_treinamento_id = 7\<rparr>"

definition bia_row :: atleta_model where
  "bia_row = \<lparr>m_id = 6, m_created_at = 200, m_nome = ''Bia'', m_cpf = ''222'', m_peso = 55,
              m_altura = 2, m_sexo = ''F'', categoria_id = 1, centro_treinamento_id = 7\<rparr>"

text \<open>The same store with one athlete, and with two.\<close>

definition db1 :: db where
  "db1 = db0\<lparr>atletas := [ana_row]\<rparr>"

definition db2 :: db where
  "db2 = db0\<lparr>atletas := [ana_row, bia_row]\<rparr>"

text \<open>
  A store with two categories and two training centres, whose second athlete belongs to
  the second of each, and a store whose only athlete points to a training centre that
  is not there.
\<close>

definition cid_row :: atleta_model where
  "cid_row = \<lparr>m_id = 8, m_created_at = 300, m_nome = ''Cid'', m_cpf = ''333'', m_peso = 80,
              m_altura = 2, m_sexo = ''M'', categoria_id = 2, centro_treinamento_id = 8\<rparr>"

definition db3 :: db where
  "db3 = \<lparr>categorias = [\<lparr>cat_pk_id = 1, cat_nome = ''Scale''\<rparr>,
                        \<lparr>cat_pk_id = 2, cat_nome = ''Elite''\<rparr>],
          centros_treinamento = [\<lparr>ct_pk_id = 7, ct_nome = ''Box1''\<rparr>,
                                 \<lparr>ct_pk_id = 8, ct_nome = ''Box2''\<rparr>],
          atletas = [ana_row, cid_row]\<rparr>"

definition db_dangling :: db where
  "db_dangling = db1\<lparr>centros_treinamento := []\<rparr>"

section \<open>Verification\<close>

subsection \<open>Lookups\<close>

lemma first_eq_None: "first rows = None \<longleftrightarrow> rows = []"
  by (simp add: first_def split: list.splits)

lemma first_filter_None: "first (filter P xs) = None \<longleftrightarrow> (\<forall>x \<in> set xs. \<not> P x)"
  by (simp add: first_eq_None filter_empty_conv)

lemma first_filter_Some: "first (filter P xs) = Some x \<Longrightarrow> x \<in> set xs \<and> P x"
proof -
  assume "first (filter P xs) = Some x"
  then obtain rest where "filter P xs = x # rest"
    by (auto simp: first_def split: list.splits)
  then have "x \<in> set (filter P xs)" by simp
  then show ?thesis by simp
qed

lemma first_filter_exists: "\<exists>x \<in> set xs. P x \<Longrightarrow> \<exists>y. first (filter P xs) = Some y"
  using first_filter_None [of P xs] by (cases "first (filter P xs)") auto

lemma first_lookup_None: "v \<notin> f ` set xs \<Longrightarrow> first (filter (\<lambda>c. f c = v) xs) = None"
  by (force simp: first_filter_None)

lemma first_lookup_Some:
  "v \<in> f ` set xs \<Longrightarrow> \<exists>y. first (filter (\<lambda>c. f c = v) xs) = Some y \<and> y \<in> set xs \<and> f y = v"
proof -
  assume "v \<in> f ` set xs"
  then have "\<exists>x \<in> set xs. f x = v" by force
  then obtain y where "first (filter (\<lambda>c. f c = v) xs) = Some y"
    using first_filter_exists [of xs "\<lambda>c. f c = v"] by blast
  then show ?thesis using first_filter_Some [of "\<lambda>c. f c = v" xs y] by simp
qed

lemma first_filter_iff:
  "first (filter P xs) = Some x \<longleftrightarrow>
     (\<exists>k<length xs. xs ! k = x \<and> P x \<and> (\<forall>j<k. \<not> P (xs ! j)))"
proof (induction xs)
  case Nil
  then show ?case by (simp add: first_def)
next
  case (Cons y ys)
  show ?case
  proof (cases "P y")
    case True
    have "(\<exists>k<length (y # ys). (y # ys) ! k = x \<and> P x \<and> (\<forall>j<k. \<not> P ((y # ys) ! j))) \<longleftrightarrow> y = x"
    proof
      assume "\<exists>k<length (y # ys). (y # ys) ! k = x \<and> P x \<and> (\<forall>j<k. \<not> P ((y # ys) ! j))"
      then obtain k where k: "(y # ys) ! k = x" "\<forall>j<k. \<not> P ((y # ys) ! j)" by blast
      have "k = 0"
      proof (rule ccontr)
        assume "k \<noteq> 0"
        then have "\<not> P ((y # ys) ! 0)" using k(2) by blast
        then show False using True by simp
      qed
      then show "y = x" using k(1) by simp
    next
      assume "y = x"
      then have "(y # ys) ! 0 = x \<and> P x \<and> (\<forall>j<0. \<not> P ((y # ys) ! j))" using True by simp
      then show "\<exists>k<length (y # ys). (y # ys) ! k = x \<and> P x \<and> (\<forall>j<k. \<not> P ((y # ys) ! j))"
        by (intro exI [of _ 0]) simp
    qed
    then show ?thesis using True by (simp add: first_def)
  next
    case False
    have "(\<exists>k<length (y # ys). (y # ys) ! k = x \<and> P x \<and> (\<forall>j<k. \<not> P ((y # ys) ! j))) \<longleftrightarrow>
          (\<exists>k<length ys. ys ! k = x \<and> P x \<and> (\<forall>j<k. \<not> P (ys ! j)))"
    proof
      assume "\<exists>k<length (y # ys). (y # ys) ! k = x \<and> P x \<and> (\<forall>j<k. \<not> P ((y # ys) ! j))"
      then obtain k where k: "k < length (y # ys)" "(y # ys) ! k = x" "P x"
        "\<forall>j<k. \<not> P ((y # ys) ! j)" by blast
      have "k \<noteq> 0" using k(2,3) False by (cases k) auto
      then obtain k' where k': "k = Suc k'" by (cases k) auto
      have "\<forall>j<k'. \<not> P (ys ! j)"
      proof (intro allI impI)
        fix j assume "j < k'"
        then have "\<not> P ((y # ys) ! Suc j)" using k(4) k' by blast
        then show "\<not> P (ys ! j)" by simp
      qed
      then show "\<exists>k<length ys. ys ! k = x \<and> P x \<and> (\<forall>j<k. \<not> P (ys ! j))"
        using k k' by (intro exI [of _ k']) simp
    next
      assume "\<exists>k<length ys. ys ! k = x \<and> P x \<and> (\<forall>j<k. \<not> P (ys ! j))"
      then obtain k where k: "k < length ys" "ys ! k = x" "P x" "\<forall>j<k. \<not> P (ys ! j)" by blast
      have "\<forall>j<Suc k. \<not> P ((y # ys) ! j)"
      proof (intro allI impI)
        fix j assume "j < Suc k"
        then show "\<not> P ((y # ys) ! j)" using False k(4) by (cases j) auto
      qed
      then show "\<exists>k<length (y # ys). (y # ys) ! k = x \<and> P x \<and> (\<forall>j<k. \<not> P ((y # ys) ! j))"
        using k by (intro exI [of _ "Suc k"]) simp
    qed
    then show ?thesis using False Cons.IH by (simp add: first_def)
  qed
qed

lemma open_session_simps [simp]:
  "store (open_session d) = d" "pending (open_session d) = []" "calls (open_session d) = []"
  by (simp_all add: open_session_def)

lemmas sample_defs = db0_def db1_def db2_def db3_def db_dangling_def ana_def ana_row_def
  bia_row_def cid_row_def

subsection \<open>Create\<close>

lemma post_reference_lookup:
  "(categoria body \<notin> cat_nome ` set (categorias d) \<longrightarrow>
      post new_id now fault body (open_session d) =
        (Inl (HTTPException 400 (categoria_nao_encontrada (categoria body))),
         (open_session d)\<lparr>calls := [Execute (SelectCategoria (categoria body))]\<rparr>)) \<and>
   (categoria body \<in> cat_nome ` set (categorias d) \<and>
    centro_treinamento body \<notin> ct_nome ` set (centros_treinamento d) \<longrightarrow>
      post new_id now fault body (open_session d) =
        (Inl (HTTPException 400 (centro_nao_encontrado (centro_treinamento body))),
         (open_session d)\<lparr>calls := [Execute (SelectCategoria (categoria body)),
           Execute (SelectCentroTreinamento (centro_treinamento body))]\<rparr>))"
proof (intro conjI impI)
  assume "categoria body \<notin> cat_nome ` set (categorias d)"
  then have n: "first (filter (\<lambda>c. cat_nome c = categoria body) (categorias d)) = None"
    by (rule first_lookup_None)
  show "post new_id now fault body (open_session d) =
      (Inl (HTTPException 400 (categoria_nao_encontrada (categoria body))),
       (open_session d)\<lparr>calls := [Execute (SelectCategoria (categoria body))]\<rparr>)"
    using n by (simp add: post_def execute_categoria_def Let_def)
next
  assume a: "categoria body \<in> cat_nome ` set (categorias d) \<and>
    centro_treinamento body \<notin> ct_nome ` set (centros_treinamento d)"
  then obtain c where c: "first (filter (\<lambda>c. cat_nome c = categoria body) (categorias d)) = Some c"
    using first_lookup_Some [of "categoria body" cat_nome "categorias d"] by blast
  from a have n:
    "first (filter (\<lambda>c. ct_nome c = centro_treinamento body) (centros_treinamento d)) = None"
    by (simp add: first_lookup_None)
  show "post new_id now fault body (open_session d) =
      (Inl (HTTPException 400 (centro_nao_encontrado (centro_treinamento body))),
       (open_session d)\<lparr>calls := [Execute (SelectCategoria (categoria body)),
         Execute (SelectCentroTreinamento (centro_treinamento body))]\<rparr>)"
    using c n
    by (simp add: post_def execute_categoria_def execute_centro_treinamento_def Let_def)
qed

text \<open>
  Claim C1. \<^verbatim>\<open>post\<close> looks the category up first. When no category has the name of the
  request, the answer is 400 with the message \<^verbatim>\<open>A categoria <name> nao foi encontrada.\<close>
  (with the tilde on the a), in which \<^verbatim>\<open><name>\<close> is the category of the request; the store
  is unchanged, and the only call the session has seen is that lookup: no lookup of the
  training centre, no \<^verbatim>\<open>add\<close>, no \<^verbatim>\<open>commit\<close>. This holds whether or not the training
  centre exists, so a request with both references missing is answered with the
  category's message. When the category exists and the training centre does not, the
  answer is 400 with the message \<^verbatim>\<open>O centro de treinamento <name> nao foi encontrado.\<close>
  that carries the centre of the request, the store is unchanged, and the session has seen
  the two lookups and nothing else.
\<close>

theorem post_ReferenceNotFound:
  "(categoria body \<notin> cat_nome ` set (categorias d) \<longrightarrow>
      POST_atletas new_id now fault body d =
        ((400, Inl (''A categoria '' @ categoria body @ '' n'' @ [CHR 0xC3, CHR 0xA3] @
                    ''o foi encontrada.'')), d) \<and>
      calls (snd (post new_id now fault body (open_session d))) =
        [Execute (SelectCategoria (categoria body))] \<and>
      pending (snd (post new_id now fault body (open_session d))) = []) \<and>
   (categoria body \<in> cat_nome ` set (categorias d) \<and>
    centro_treinamento body \<notin> ct_nome ` set (centros_treinamento d) \<longrightarrow>
      POST_atletas new_id now fault body d =
        ((400, Inl (''O centro de treinamento '' @ centro_treinamento body @ '' n'' @
                    [CHR 0xC3, CHR 0xA3] @ ''o foi encontrado.'')), d) \<and>
      calls (snd (post new_id now fault body (open_session d))) =
        [Execute (SelectCategoria (categoria body)),
         Execute (SelectCentroTreinamento (centro_treinamento body))] \<and>
      pending (snd (post new_id now fault body (open_session d))) = [])"
  using post_reference_lookup [of body d new_id now fault]
  by (simp add: POST_atletas_def respond_def categoria_nao_encontrada_def
      centro_nao_encontrado_def)

text \<open>
  The theorem at a request that names an unknown category and an unknown centre, and at
  one that names an unknown centre only.
\<close>

theorem post_ReferenceNotFound_witness:
  "''RX'' \<notin> cat_nome ` set (categorias db0) \<and>
   POST_atletas 5 100 None (ana\<lparr>categoria := ''RX'', centro_treinamento := ''Box9''\<rparr>) db0 =
     ((400, Inl (''A categoria RX n'' @ [CHR 0xC3, CHR 0xA3] @ ''o foi encontrada.'')), db0) \<and>
   ''Scale'' \<in> cat_nome ` set (categorias db0) \<and>
   ''Box9'' \<notin> ct_nome ` set (centros_treinamento db0) \<and>
   POST_atletas 5 100 None (ana\<lparr>centro_treinamento := ''Box9''\<rparr>) db0 =
     ((400, Inl (''O centro de treinamento Box9 n'' @ [CHR 0xC3, CHR 0xA3] @
                 ''o foi encontrado.'')), db0)"
  using post_ReferenceNotFound
          [of "ana\<lparr>categoria := ''RX'', centro_treinamento := ''Box9''\<rparr>" db0 5 100 None]
        post_ReferenceNotFound [of "ana\<lparr>centro_treinamento := ''Box9''\<rparr>" db0 5 100 None]
  by (simp add: ana_def db0_def)

lemma AtletaOut_simps [simp]:
  "nome (AtletaOut u t a) = nome a" "cpf (AtletaOut u t a) = cpf a"
  "peso (AtletaOut u t a) = peso a" "altura (AtletaOut u t a) = altura a"
  "sexo (AtletaOut u t a) = sexo a" "categoria (AtletaOut u t a) = categoria a"
  "centro_treinamento (AtletaOut u t a) = centro_treinamento a"
  "id' (AtletaOut u t a) = u" "created_at (AtletaOut u t a) = t"
  by (simp_all add: AtletaOut_def atleta_in.defs atleta_out.defs)

lemma AtletaOut_eq:
  "AtletaOut u t a =
     \<lparr>nome = nome a, cpf = cpf a, peso = peso a, altura = altura a, sexo = sexo a,
      categoria = categoria a, centro_treinamento = centro_treinamento a,
      id' = u, created_at = t\<rparr>"
  by (cases a) (simp add: AtletaOut_def atleta_in.defs atleta_out.defs)

text \<open>What \<^verbatim>\<open>post\<close> does once both references are resolved: it stages the row and commits.\<close>

lemma post_resolved:
  assumes "first (filter (\<lambda>c. cat_nome c = categoria body) (categorias d)) = Some c"
    and "first (filter (\<lambda>c. ct_nome c = centro_treinamento body) (centros_treinamento d)) = Some t"
  shows "post new_id now fault body (open_session d) =
     (case commit fault
        \<lparr>store = d,
         pending = [Insert (AtletaModel (AtletaOut new_id now body) (cat_pk_id c) (ct_pk_id t))],
         calls = [Execute (SelectCategoria (categoria body)),
                  Execute (SelectCentroTreinamento (centro_treinamento body)), Add]\<rparr> of
        (Inl IntegrityError, s4) \<Rightarrow>
          (Inl (HTTPException 303 (cpf_ja_cadastrado (cpf body))), s4)
      | (Inl _, s4) \<Rightarrow> (Inl (HTTPException 500 erro_ao_inserir), s4)
      | (Inr _, s4) \<Rightarrow> (Inr (AtletaOut new_id now body), s4))"
  using assms
  by (simp add: post_def execute_categoria_def execute_centro_treinamento_def Let_def add_def
      open_session_def)

lemma post_commit_IntegrityError:
  assumes "categoria body \<in> cat_nome ` set (categorias d)"
    and "centro_treinamento body \<in> ct_nome ` set (centros_treinamento d)"
    and "fault = Some IntegrityError \<or> fault = None \<and> cpf body \<in> m_cpf ` set (atletas d)"
  shows "POST_atletas new_id now fault body d = ((303, Inl (cpf_ja_cadastrado (cpf body))), d)"
proof -
  obtain c where c: "first (filter (\<lambda>c. cat_nome c = categoria body) (categorias d)) = Some c"
    using first_lookup_Some [OF assms(1)] by blast
  obtain t where t:
    "first (filter (\<lambda>c. ct_nome c = centro_treinamento body) (centros_treinamento d)) = Some t"
    using first_lookup_Some [OF assms(2)] by blast
  have "post new_id now fault body (open_session d) =
      (Inl (HTTPException 303 (cpf_ja_cadastrado (cpf body))),
       \<lparr>store = d, pending = [],
        calls = [Execute (SelectCategoria (categoria body)),
                 Execute (SelectCentroTreinamento (centro_treinamento body)), Add, Commit]\<rparr>)"
    using assms(3) by (auto simp: post_resolved [OF c t] commit_def Let_def AtletaModel_def)
  then show ?thesis
    by (simp add: POST_atletas_def respond_def)
qed

text \<open>
  Claim C2. When both references resolve and the national id of the request is already in
  the athlete table, the commit raises \<open>IntegrityError\<close> (the store is healthy, or fails
  with that very signal), and \<^verbatim>\<open>post\<close> answers 303 with the message
  \<^verbatim>\<open>Ja existe um atleta cadastrado com o cpf: <cpf>\<close> (with the accent on the a) that ends
  with the cpf of the request. Neither the status nor the message is the one of the
  generic failure.
\<close>

theorem post_DuplicateKey:
  assumes "categoria body \<in> cat_nome ` set (categorias d)"
    and "centro_treinamento body \<in> ct_nome ` set (centros_treinamento d)"
    and "cpf body \<in> m_cpf ` set (atletas d)"
    and "fault = None \<or> fault = Some IntegrityError"
  shows "POST_atletas new_id now fault body d =
           ((303, Inl (''J'' @ [CHR 0xC3, CHR 0xA1] @
                       '' existe um atleta cadastrado com o cpf: '' @ cpf body)), d) \<and>
         fst (fst (POST_atletas new_id now fault body d)) \<noteq> 500 \<and>
         snd (fst (POST_atletas new_id now fault body d)) \<noteq>
           Inl ''Ocorreu um erro ao inserir os dados no banco''"
proof -
  have "fault = Some IntegrityError \<or> fault = None \<and> cpf body \<in> m_cpf ` set (atletas d)"
    using assms(3,4) by blast
  then have "POST_atletas new_id now fault body d =
      ((303, Inl (cpf_ja_cadastrado (cpf body))), d)"
    using assms(1,2) by (rule post_commit_IntegrityError [rotated 2])
  then show ?thesis by (simp add: cpf_ja_cadastrado_def)
qed

text \<open>The theorem at a second request for the national id of the athlete in the store.\<close>

theorem post_DuplicateKey_witness:
  "categoria ana \<in> cat_nome ` set (categorias db1) \<and>
   centro_treinamento ana \<in> ct_nome ` set (centros_treinamento db1) \<and>
   cpf ana \<in> m_cpf ` set (atletas db1) \<and>
   POST_atletas 9 300 None ana db1 =
     ((303, Inl (''J'' @ [CHR 0xC3, CHR 0xA1] @
                 '' existe um atleta cadastrado com o cpf: 111'')), db1)"
  using post_DuplicateKey [of ana db1 None 9 300]
  by (simp add: sample_defs)

text \<open>
  Claim C5, as amended. When both references resolve and the commit fails with an
  exception that is not an \<open>IntegrityError\<close>, \<^verbatim>\<open>post\<close> answers 500 with the fixed message
  \<^verbatim>\<open>Ocorreu um erro ao inserir os dados no banco\<close>, which mentions neither the exception
  nor the request, and the store is what it was before the request.
\<close>

theorem post_InternalFailure:
  assumes "categoria body \<in> cat_nome ` set (categorias d)"
    and "centro_treinamento body \<in> ct_nome ` set (centros_treinamento d)"
    and "fault = Some e" and "e \<noteq> IntegrityError"
  shows "POST_atletas new_id now fault body d =
           ((500, Inl ''Ocorreu um erro ao inserir os dados no banco''), d)"
proof -
  obtain c where c: "first (filter (\<lambda>c. cat_nome c = categoria body) (categorias d)) = Some c"
    using first_lookup_Some [OF assms(1)] by blast
  obtain t where t:
    "first (filter (\<lambda>c. ct_nome c = centro_treinamento body) (centros_treinamento d)) = Some t"
    using first_lookup_Some [OF assms(2)] by blast
  have "post new_id now fault body (open_session d) =
      (Inl (HTTPException 500 erro_ao_inserir),
       \<lparr>store = d, pending = [],
        calls = [Execute (SelectCategoria (categoria body)),
                 Execute (SelectCentroTreinamento (centro_treinamento body)), Add, Commit]\<rparr>)"
    using assms(3,4) by (cases e) (simp_all add: post_resolved [OF c t] commit_def Let_def)
  then show ?thesis
    by (simp add: POST_atletas_def respond_def erro_ao_inserir_def)
qed

text \<open>The theorem at a commit that the store fails with \<open>OperationalError\<close>.\<close>

theorem post_InternalFailure_witness:
  "categoria ana \<in> cat_nome ` set (categorias db0) \<and>
   centro_treinamento ana \<in> ct_nome ` set (centros_treinamento db0) \<and>
   OperationalError \<noteq> IntegrityError \<and>
   POST_atletas 5 100 (Some OperationalError) ana db0 =
     ((500, Inl ''Ocorreu um erro ao inserir os dados no banco''), db0)"
  using post_InternalFailure [of ana db0 "Some OperationalError" OperationalError 5 100]
  by (simp add: sample_defs)

text \<open>
  Claim C5 as stated fails for an \<open>IntegrityError\<close> that no duplicate caused: on a store
  without athletes, where no national id can be taken, a commit that the store fails with
  \<open>IntegrityError\<close> (another constraint) is answered with 303 and the message of the
  duplicate cpf, not with 500.
\<close>

theorem post_IntegrityError_other_cause:
  "atletas db0 = [] \<and>
   POST_atletas 5 100 (Some IntegrityError) ana db0 =
     ((303, Inl (''J'' @ [CHR 0xC3, CHR 0xA1] @
                 '' existe um atleta cadastrado com o cpf: 111'')), db0)"
proof -
  have "POST_atletas 5 100 (Some IntegrityError) ana db0 =
      ((303, Inl (cpf_ja_cadastrado (cpf ana))), db0)"
    by (rule post_commit_IntegrityError) (simp_all add: sample_defs)
  then show ?thesis by (simp add: cpf_ja_cadastrado_def sample_defs)
qed

text \<open>
  Claim C6. When the lookups find the category \<open>c\<close> and the training centre \<open>t\<close> and the
  commit succeeds (the store is healthy and the national id is new), \<^verbatim>\<open>post\<close> answers 201
  with the fields of the request together with the identifier and the timestamp generated
  on the server, and the store has gained, after its other rows, the row with those
  values and with the keys of \<open>c\<close> and \<open>t\<close> as foreign keys.
\<close>

theorem post_Created:
  assumes "first (filter (\<lambda>c. cat_nome c = categoria body) (categorias d)) = Some c"
    and "first (filter (\<lambda>c. ct_nome c = centro_treinamento body) (centros_treinamento d)) = Some t"
    and "cpf body \<notin> m_cpf ` set (atletas d)"
  shows "POST_atletas new_id now None body d =
     ((201, Inr \<lparr>nome = nome body, cpf = cpf body, peso = peso body, altura = altura body,
                 sexo = sexo body, categoria = categoria body,
                 centro_treinamento = centro_treinamento body,
                 id' = new_id, created_at = now\<rparr>),
      d\<lparr>atletas := atletas d @
         [\<lparr>m_id = new_id, m_created_at = now, m_nome = nome body, m_cpf = cpf body,
           m_peso = peso body, m_altura = altura body, m_sexo = sexo body,
           categoria_id = cat_pk_id c, centro_treinamento_id = ct_pk_id t\<rparr>]\<rparr>)"
proof -
  have "post new_id now None body (open_session d) =
      (Inr (AtletaOut new_id now body),
       \<lparr>store = d\<lparr>atletas := atletas d @
           [AtletaModel (AtletaOut new_id now body) (cat_pk_id c) (ct_pk_id t)]\<rparr>,
        pending = [],
        calls = [Execute (SelectCategoria (categoria body)),
                 Execute (SelectCentroTreinamento (centro_treinamento body)), Add, Commit]\<rparr>)"
    using assms(3) by (simp add: post_resolved [OF assms(1,2)] commit_def Let_def AtletaModel_def)
  then show ?thesis
    by (simp add: POST_atletas_def respond_def AtletaModel_def AtletaOut_eq)
qed

text \<open>The theorem at the first athlete of the sample store.\<close>

theorem post_Created_witness:
  "first (filter (\<lambda>c. cat_nome c = categoria ana) (categorias db0)) =
     Some \<lparr>cat_pk_id = 1, cat_nome = ''Scale''\<rparr> \<and>
   first (filter (\<lambda>c. ct_nome c = centro_treinamento ana) (centros_treinamento db0)) =
     Some \<lparr>ct_pk_id = 7, ct_nome = ''Box1''\<rparr> \<and>
   cpf ana \<notin> m_cpf ` set (atletas db0) \<and>
   POST_atletas 5 100 None ana db0 =
     ((201, Inr \<lparr>nome = ''Ana'', cpf = ''111'', peso = 60, altura = 2, sexo = ''F'',
                 categoria = ''Scale'', centro_treinamento = ''Box1'',
                 id' = 5, created_at = 100\<rparr>), db1)"
  using post_Created [of ana db0 "\<lparr>cat_pk_id = 1, cat_nome = ''Scale''\<rparr>"
                         "\<lparr>ct_pk_id = 7, ct_nome = ''Box1''\<rparr>" 5 100]
  by (simp add: sample_defs first_def)

subsection \<open>List and search\<close>

lemma filtered_Nil: "filtered d [] = enumerate 0 (atletas d)"
  by (simp add: filtered_def)

lemma map_snd_page:
  "map snd (take n (drop k (enumerate 0 xs))) = take n (drop k xs)"
  by (simp add: take_map [symmetric] drop_map [symmetric])

lemma limit_offset_in_range:
  assumes "0 \<le> l" and "l \<le> int64_max" and "0 \<le> k" and "k \<le> int64_max"
  shows "limit_offset neg l k rows = Inr (take (nat l) (drop (nat k) rows))"
proof -
  have "0 \<le> int64_max" by (simp add: int64_max_def)
  then show ?thesis using assms by (simp add: limit_offset_def)
qed

lemma atleta_dict_fk:
  assumes "categoria_id a \<in> cat_pk_id ` set (categorias d)"
    and "centro_treinamento_id a \<in> ct_pk_id ` set (centros_treinamento d)"
  shows "\<exists>x. atleta_dict d a = Inr x"
proof -
  obtain c where "first (filter (\<lambda>c. cat_pk_id c = categoria_id a) (categorias d)) = Some c"
    using first_lookup_Some [OF assms(1)] by blast
  moreover obtain t where
    "first (filter (\<lambda>c. ct_pk_id c = centro_treinamento_id a) (centros_treinamento d)) = Some t"
    using first_lookup_Some [OF assms(2)] by blast
  ultimately show ?thesis by (simp add: atleta_dict_def)
qed

lemma atleta_dict_keys:
  "atleta_dict d a = Inr x \<Longrightarrow> map fst x = [''nome'', ''centro_treinamento'', ''categoria'']"
  by (auto simp: atleta_dict_def split: option.splits)

lemma atleta_dict_Inr:
  assumes "atleta_dict d a = Inr x"
  shows "\<exists>c \<in> set (categorias d). \<exists>t \<in> set (centros_treinamento d).
           cat_pk_id c = categoria_id a \<and> ct_pk_id t = centro_treinamento_id a \<and>
           x = [(''nome'', m_nome a), (''centro_treinamento'', ct_nome t),
                (''categoria'', cat_nome c)]"
proof -
  from assms obtain t c
    where t: "first (filter (\<lambda>c. ct_pk_id c = centro_treinamento_id a) (centros_treinamento d))
                = Some t"
      and c: "first (filter (\<lambda>c. cat_pk_id c = categoria_id a) (categorias d)) = Some c"
      and x: "x = [(''nome'', m_nome a), (''centro_treinamento'', ct_nome t),
                   (''categoria'', cat_nome c)]"
    by (auto simp: atleta_dict_def split: option.splits)
  from first_filter_Some [OF t] first_filter_Some [OF c] x show ?thesis by blast
qed

lemma atletas_response_map:
  "atletas_response d rows = Inr xs \<Longrightarrow> map Inr xs = map (atleta_dict d) rows"
  by (induction rows arbitrary: xs) (auto split: sum.splits)

lemma atletas_response_total:
  "\<forall>a \<in> set rows. \<exists>x. atleta_dict d a = Inr x \<Longrightarrow> \<exists>xs. atletas_response d rows = Inr xs"
  by (induction rows) (auto split: sum.splits)

lemma atletas_response_fk:
  assumes "fk_ok d" and "set rows \<subseteq> set (atletas d)"
  shows "\<exists>xs. atletas_response d rows = Inr xs"
proof (rule atletas_response_total, rule ballI)
  fix a assume "a \<in> set rows"
  with assms have "a \<in> set (atletas d)" by blast
  with assms(1) show "\<exists>x. atleta_dict d a = Inr x"
    by (auto simp: fk_ok_def list_all_iff intro!: atleta_dict_fk)
qed

lemma query_all_page_rows:
  assumes "limit_offset neg l k (filtered d []) = Inr rows"
    and "atletas_response d (map snd rows) = Inr xs"
  shows "fst (query_all neg l k (open_session d)) = Inr xs"
  using assms by (simp add: query_all_def execute_atleta_def)

lemma search_page_rows:
  assumes "limit_offset neg l k (filtered d (search_criteria n c)) = Inr rows"
    and "atletas_response d (map snd rows) = Inr xs"
  shows "fst (query_by_name_or_cpf neg n c l k (open_session d)) =
           (if xs = [] then Inl (HTTPException 404 nenhum_atleta) else Inr xs)"
  using assms by (simp add: query_by_name_or_cpf_def execute_atleta_def)

lemma query_all_never_404: "fst (GET_atletas neg limit offset d) \<noteq> 404"
  by (simp add: GET_atletas_def query_all_def execute_atleta_def respond_def
      split: sum.splits prod.splits failure.splits)

text \<open>
  Claim C3. When the store returns no row for the filtered and paginated statement of the
  search, the search answers 404; when it returns no row for the paginated statement of
  the listing, the listing answers 200 with the empty list. The listing never answers 404,
  whatever the request and the store.
\<close>

theorem search_empty_NotFound_list_empty_ok:
  "(limit_offset neg (Query 10 limit) (Query 0 offset) (filtered d (search_criteria nome' cpf'))
      = Inr [] \<longrightarrow>
      GET_atletas_search neg nome' cpf' limit offset d = (404, Inl nenhum_atleta)) \<and>
   (limit_offset neg (Query 10 limit) (Query 0 offset) (filtered d []) = Inr [] \<longrightarrow>
      GET_atletas neg limit offset d = (200, Inr [])) \<and>
   fst (GET_atletas neg limit offset d) \<noteq> 404"
proof (intro conjI impI)
  assume "limit_offset neg (Query 10 limit) (Query 0 offset)
            (filtered d (search_criteria nome' cpf')) = Inr []"
  then show "GET_atletas_search neg nome' cpf' limit offset d = (404, Inl nenhum_atleta)"
    using search_page_rows [of neg "Query 10 limit" "Query 0 offset" d nome' cpf' "[]" "[]"]
    by (simp add: GET_atletas_search_def respond_def)
next
  assume "limit_offset neg (Query 10 limit) (Query 0 offset) (filtered d []) = Inr []"
  then show "GET_atletas neg limit offset d = (200, Inr [])"
    using query_all_page_rows [of neg "Query 10 limit" "Query 0 offset" d "[]" "[]"]
    by (simp add: GET_atletas_def respond_def)
next
  show "fst (GET_atletas neg limit offset d) \<noteq> 404" by (rule query_all_never_404)
qed

text \<open>
  The theorem at a search for a name nobody has, and at a listing of a store without
  athletes.
\<close>

theorem search_empty_NotFound_list_empty_ok_witness:
  "limit_offset rejects_negative (Query 10 None) (Query 0 None)
     (filtered db2 (search_criteria (Some ''Zed'') None)) = Inr [] \<and>
   GET_atletas_search rejects_negative (Some ''Zed'') None None None db2 =
     (404, Inl nenhum_atleta) \<and>
   limit_offset rejects_negative (Query 10 None) (Query 0 None) (filtered db0 []) = Inr [] \<and>
   GET_atletas rejects_negative None None db0 = (200, Inr [])"
  using search_empty_NotFound_list_empty_ok [of rejects_negative None None db2 "Some ''Zed''" None]
        search_empty_NotFound_list_empty_ok [of rejects_negative None None db0 None None]
  by (simp add: sample_defs limit_offset_def int64_max_def Query_def filtered_def
      search_criteria_def truthy_def)

text \<open>
  Claim C7, as amended. For a limit and an offset between 0 and \<open>2^63 - 1\<close> (10 and 0
  when the request leaves them out), let the page be the rows of the athlete table from
  position \<open>offset\<close> on, in the order of the table, at most \<open>limit\<close> of them. On a store
  whose athletes all point to an existing category and training centre, the listing
  answers 200 with one entry per row of the page, in the same order: the name of the
  athlete under \<^verbatim>\<open>nome\<close>, the name of a training centre whose key is the athlete's foreign
  key under \<^verbatim>\<open>centro_treinamento\<close>, the name of a category whose key is the athlete's
  foreign key under \<^verbatim>\<open>categoria\<close>. On any store, an empty page is answered with 200 and
  the empty list, and so is a limit of 0.
\<close>

theorem query_all_page:
  assumes "0 \<le> Query 10 limit" and "Query 10 limit \<le> int64_max"
    and "0 \<le> Query 0 offset" and "Query 0 offset \<le> int64_max"
  shows "let page = take (nat (Query 10 limit)) (drop (nat (Query 0 offset)) (atletas d))
         in (fk_ok d \<longrightarrow>
              (\<exists>response.
                 GET_atletas neg limit offset d = (200, Inr response) \<and>
                 length response = length page \<and>
                 int (length response) \<le> Query 10 limit \<and>
                 (\<forall>k<length page.
                    \<exists>c \<in> set (categorias d). \<exists>t \<in> set (centros_treinamento d).
                      cat_pk_id c = categoria_id (page ! k) \<and>
                      ct_pk_id t = centro_treinamento_id (page ! k) \<and>
                      response ! k =
                        [(''nome'', m_nome (page ! k)),
                         (''centro_treinamento'', ct_nome t),
                         (''categoria'', cat_nome c)]))) \<and>
            (page = [] \<longrightarrow> GET_atletas neg limit offset d = (200, Inr [])) \<and>
            (Query 10 limit = 0 \<longrightarrow> GET_atletas neg limit offset d = (200, Inr [])) \<and>
            GET_atletas neg None None d = GET_atletas neg (Some 10) (Some 0) d"
proof -
  let ?l = "nat (Query 10 limit)" and ?k = "nat (Query 0 offset)"
  let ?rows = "take ?l (drop ?k (enumerate 0 (atletas d)))"
  define page where "page = take ?l (drop ?k (atletas d))"
  have paged: "limit_offset neg (Query 10 limit) (Query 0 offset) (filtered d []) = Inr ?rows"
    using assms by (simp add: limit_offset_in_range filtered_Nil)
  have snd_rows: "map snd ?rows = page"
    unfolding page_def by (rule map_snd_page)
  have total: "\<exists>response.
                 GET_atletas neg limit offset d = (200, Inr response) \<and>
                 length response = length page \<and>
                 int (length response) \<le> Query 10 limit \<and>
                 (\<forall>k<length page.
                    \<exists>c \<in> set (categorias d). \<exists>t \<in> set (centros_treinamento d).
                      cat_pk_id c = categoria_id (page ! k) \<and>
                      ct_pk_id t = centro_treinamento_id (page ! k) \<and>
                      response ! k =
                        [(''nome'', m_nome (page ! k)),
                         (''centro_treinamento'', ct_nome t),
                         (''categoria'', cat_nome c)])" if fk: "fk_ok d"
  proof -
    have "set page \<subseteq> set (atletas d)"
      unfolding page_def by (meson set_take_subset set_drop_subset subset_trans)
    then obtain xs where xs: "atletas_response d page = Inr xs"
      using atletas_response_fk [OF fk] by blast
    then have xs': "atletas_response d (map snd ?rows) = Inr xs"
      by (simp only: snd_rows)
    have get: "GET_atletas neg limit offset d = (200, Inr xs)"
      using query_all_page_rows [OF paged xs'] by (simp add: GET_atletas_def respond_def)
    have m: "map Inr xs = map (atleta_dict d) page"
      using xs by (rule atletas_response_map)
    then have len: "length xs = length page"
      by (rule map_eq_imp_length_eq)
    have "length page \<le> ?l" unfolding page_def by simp
    then have bound: "int (length xs) \<le> Query 10 limit"
      using len assms(1) by simp
    have each: "\<forall>k<length page.
                    \<exists>c \<in> set (categorias d). \<exists>t \<in> set (centros_treinamento d).
                      cat_pk_id c = categoria_id (page ! k) \<and>
                      ct_pk_id t = centro_treinamento_id (page ! k) \<and>
                      xs ! k =
                        [(''nome'', m_nome (page ! k)),
                         (''centro_treinamento'', ct_nome t),
                         (''categoria'', cat_nome c)]"
    proof (intro allI impI)
      fix k assume k: "k < length page"
      then have "map Inr xs ! k = map (atleta_dict d) page ! k" using m by simp
      then have "atleta_dict d (page ! k) = Inr (xs ! k)" using k len by simp
      then show "\<exists>c \<in> set (categorias d). \<exists>t \<in> set (centros_treinamento d).
                      cat_pk_id c = categoria_id (page ! k) \<and>
                      ct_pk_id t = centro_treinamento_id (page ! k) \<and>
                      xs ! k =
                        [(''nome'', m_nome (page ! k)),
                         (''centro_treinamento'', ct_nome t),
                         (''categoria'', cat_nome c)]"
        by (rule atleta_dict_Inr)
    qed
    from get len bound each show ?thesis by blast
  qed
  have empty: "GET_atletas neg limit offset d = (200, Inr [])" if "page = []"
  proof -
    have "atletas_response d (map snd ?rows) = Inr []"
      unfolding snd_rows that by simp
    then show ?thesis
      using query_all_page_rows [OF paged] by (simp add: GET_atletas_def respond_def)
  qed
  have zero: "GET_atletas neg limit offset d = (200, Inr [])" if "Query 10 limit = 0"
  proof -
    have "page = []" unfolding page_def using that by simp
    then show ?thesis by (rule empty)
  qed
  have dflt: "GET_atletas neg None None d = GET_atletas neg (Some 10) (Some 0) d"
    by (simp add: GET_atletas_def Query_def)
  show ?thesis
    unfolding Let_def page_def [symmetric] using total empty zero dflt by blast
qed

text \<open>
  The theorem at the second page of size one of a store with two categories and two
  training centres: the entry carries the second centre and the second category.
\<close>

theorem query_all_page_witness:
  "(0::int) \<le> Query 10 (Some 1) \<and> Query 10 (Some 1) \<le> int64_max \<and>
   (0::int) \<le> Query 0 (Some 1) \<and> Query 0 (Some 1) \<le> int64_max \<and> fk_ok db3 \<and>
   take (nat (Query 10 (Some 1))) (drop (nat (Query 0 (Some 1))) (atletas db3)) = [cid_row] \<and>
   GET_atletas rejects_negative (Some 1) (Some 1) db3 =
     (200, Inr [[(''nome'', ''Cid''), (''centro_treinamento'', ''Box2''),
                 (''categoria'', ''Elite'')]])"
proof -
  have h: "(0::int) \<le> Query 10 (Some 1)" "Query 10 (Some 1) \<le> int64_max"
    "(0::int) \<le> Query 0 (Some 1)" "Query 0 (Some 1) \<le> int64_max"
    by (simp_all add: Query_def int64_max_def)
  have fk: "fk_ok db3"
    by (simp add: fk_ok_def sample_defs)
  have page: "take (nat (Query 10 (Some 1))) (drop (nat (Query 0 (Some 1))) (atletas db3))
                = [cid_row]"
    by (simp add: Query_def sample_defs)
  from query_all_page [OF h, of db3 rejects_negative] fk page
  obtain response where get: "GET_atletas rejects_negative (Some 1) (Some 1) db3 = (200, Inr response)"
    and len: "length response = 1"
    and row: "\<exists>c \<in> set (categorias db3). \<exists>t \<in> set (centros_treinamento db3).
                cat_pk_id c = categoria_id cid_row \<and> ct_pk_id t = centro_treinamento_id cid_row \<and>
                response ! 0 = [(''nome'', m_nome cid_row), (''centro_treinamento'', ct_nome t),
                                (''categoria'', cat_nome c)]"
    by (auto simp: Let_def)
  from row have "response ! 0 = [(''nome'', ''Cid''), (''centro_treinamento'', ''Box2''),
                                 (''categoria'', ''Elite'')]"
    by (auto simp: sample_defs)
  with len have "response = [[(''nome'', ''Cid''), (''centro_treinamento'', ''Box2''),
                              (''categoria'', ''Elite'')]]"
    by (cases response) auto
  with get h fk page show ?thesis by simp
qed

text \<open>
  Claim C7 as stated fails in three ways. For the limit -1, a store that rejects the
  bound makes the listing fail with 500, and a store that ignores it returns two rows.
  For the limit \<open>2^63\<close> the statement cannot be executed and the listing fails with 500.
  On a store whose athlete points to a training centre that is not there, the listing
  with the default bounds fails with 500.
\<close>

theorem query_all_bounds_counterexample:
  "GET_atletas rejects_negative (Some (- 1)) None db1 = (500, Inl ''Internal Server Error'') \<and>
   GET_atletas ignores_negative (Some (- 1)) None db2 =
     (200, Inr [[(''nome'', ''Ana''), (''centro_treinamento'', ''Box1''),
                 (''categoria'', ''Scale'')],
                [(''nome'', ''Bia''), (''centro_treinamento'', ''Box1''),
                 (''categoria'', ''Scale'')]]) \<and>
   GET_atletas ignores_negative (Some 9223372036854775808) None db1 =
     (500, Inl ''Internal Server Error'') \<and>
   GET_atletas ignores_negative None None db_dangling = (500, Inl ''Internal Server Error'')"
  by (simp add: GET_atletas_def query_all_def execute_atleta_def limit_offset_def int64_max_def
      Query_def rejects_negative_def ignores_negative_def respond_def filtered_def sample_defs
      atleta_dict_def first_def open_session_def)

lemma search_criteria_empty:
  "search_criteria (Some []) cpf' = search_criteria None cpf'"
  "search_criteria nome' (Some []) = search_criteria nome' None"
  by (simp_all add: search_criteria_def truthy_def)

lemma search_criteria_NomeEq:
  "NomeEq n \<in> set (search_criteria nome' cpf') \<Longrightarrow> n \<noteq> [] \<and> nome' = Some n"
  by (auto simp: search_criteria_def truthy_def split: if_splits option.splits)

lemma filtered_matches:
  "(i, a) \<in> set (filtered d cs) \<Longrightarrow> c \<in> set cs \<Longrightarrow> matches a c"
  by (auto simp: filtered_def list_all_iff)

text \<open>
  Claim C9. An empty string for \<^verbatim>\<open>nome\<close> or \<^verbatim>\<open>cpf\<close> builds the criteria of an absent
  parameter, so the search runs the same statement and gives the same result in both
  cases. Whenever a criterion on the name is part of the statement, the name it asks for
  is not empty, and no row that meets the criteria has an empty name.
\<close>

theorem search_empty_string_is_absent:
  "search_criteria (Some []) cpf' = search_criteria None cpf' \<and>
   search_criteria nome' (Some []) = search_criteria nome' None \<and>
   query_by_name_or_cpf neg (Some []) cpf' limit offset s =
     query_by_name_or_cpf neg None cpf' limit offset s \<and>
   query_by_name_or_cpf neg nome' (Some []) limit offset s =
     query_by_name_or_cpf neg nome' None limit offset s \<and>
   (\<forall>n. NomeEq n \<in> set (search_criteria nome' cpf') \<longrightarrow>
        n \<noteq> [] \<and>
        (\<forall>(i, a) \<in> set (filtered d (search_criteria nome' cpf')). m_nome a \<noteq> []))"
proof (intro conjI allI impI)
  show "search_criteria (Some []) cpf' = search_criteria None cpf'"
    and "search_criteria nome' (Some []) = search_criteria nome' None"
    by (rule search_criteria_empty)+
  show "query_by_name_or_cpf neg (Some []) cpf' limit offset s =
          query_by_name_or_cpf neg None cpf' limit offset s"
    and "query_by_name_or_cpf neg nome' (Some []) limit offset s =
          query_by_name_or_cpf neg nome' None limit offset s"
    by (simp_all add: query_by_name_or_cpf_def search_criteria_empty)
next
  fix n assume n: "NomeEq n \<in> set (search_criteria nome' cpf')"
  then show "n \<noteq> []" using search_criteria_NomeEq by blast
  show "\<forall>(i, a) \<in> set (filtered d (search_criteria nome' cpf')). m_nome a \<noteq> []"
  proof (clarify)
    fix i a assume r: "(i, a) \<in> set (filtered d (search_criteria nome' cpf'))"
      and e: "m_nome a = []"
    have "matches a (NomeEq n)" using r n by (rule filtered_matches)
    then have "n = []" using e by simp
    then show False using search_criteria_NomeEq [OF n] by simp
  qed
qed

text \<open>
  The theorem at a store with an athlete of empty name: the search for a name does not
  select it, the search for the empty string selects every row.
\<close>

theorem search_empty_string_is_absent_witness:
  "NomeEq ''Bia'' \<in> set (search_criteria (Some ''Bia'') None) \<and>
   filtered (db2\<lparr>atletas := [ana_row\<lparr>m_nome := []\<rparr>, bia_row]\<rparr>)
     (search_criteria (Some ''Bia'') None) = [(1, bia_row)] \<and>
   m_nome bia_row \<noteq> [] \<and>
   filtered (db2\<lparr>atletas := [ana_row\<lparr>m_nome := []\<rparr>, bia_row]\<rparr>)
     (search_criteria (Some []) None) = [(0, ana_row\<lparr>m_nome := []\<rparr>), (1, bia_row)]"
  using search_empty_string_is_absent
          [of None "Some ''Bia''" rejects_negative 10 0 "open_session db2"
              "db2\<lparr>atletas := [ana_row\<lparr>m_nome := []\<rparr>, bia_row]\<rparr>"]
  by (simp add: sample_defs filtered_def search_criteria_def truthy_def)

text \<open>
  Claim C10, as amended. For a limit and an offset between 0 and \<open>2^63 - 1\<close>: when the
  offset is at least the number of rows that meet the criteria, and when the limit is 0,
  the search answers 404, however many rows meet the criteria.
\<close>

theorem search_page_beyond_matches:
  assumes "0 \<le> Query 10 limit" and "Query 10 limit \<le> int64_max"
    and "0 \<le> Query 0 offset" and "Query 0 offset \<le> int64_max"
  shows "(int (length (filtered d (search_criteria nome' cpf'))) \<le> Query 0 offset \<longrightarrow>
            GET_atletas_search neg nome' cpf' limit offset d = (404, Inl nenhum_atleta)) \<and>
         (Query 10 limit = 0 \<longrightarrow>
            GET_atletas_search neg nome' cpf' limit offset d = (404, Inl nenhum_atleta))"
proof (intro conjI impI)
  let ?rows = "filtered d (search_criteria nome' cpf')"
  have paged: "limit_offset neg (Query 10 limit) (Query 0 offset) ?rows =
                Inr (take (nat (Query 10 limit)) (drop (nat (Query 0 offset)) ?rows))"
    using assms by (rule limit_offset_in_range)
  {
    assume "int (length ?rows) \<le> Query 0 offset"
    then have "take (nat (Query 10 limit)) (drop (nat (Query 0 offset)) ?rows) = []"
      by simp
    with paged have "limit_offset neg (Query 10 limit) (Query 0 offset) ?rows = Inr []" by simp
    then show "GET_atletas_search neg nome' cpf' limit offset d = (404, Inl nenhum_atleta)"
      using search_page_rows [of neg "Query 10 limit" "Query 0 offset" d nome' cpf' "[]" "[]"]
      by (simp add: GET_atletas_search_def respond_def)
  }
  {
    assume "Query 10 limit = 0"
    with paged have "limit_offset neg (Query 10 limit) (Query 0 offset) ?rows = Inr []" by simp
    then show "GET_atletas_search neg nome' cpf' limit offset d = (404, Inl nenhum_atleta)"
      using search_page_rows [of neg "Query 10 limit" "Query 0 offset" d nome' cpf' "[]" "[]"]
      by (simp add: GET_atletas_search_def respond_def)
  }
qed

text \<open>
  The theorem at a search that one row meets, with offset 1 and with limit 0.
\<close>

theorem search_page_beyond_matches_witness:
  "(0::int) \<le> Query 10 None \<and> Query 10 None \<le> int64_max \<and>
   (0::int) \<le> Query 0 (Some 1) \<and> Query 0 (Some 1) \<le> int64_max \<and>
   filtered db2 (search_criteria (Some ''Bia'') None) = [(1, bia_row)] \<and>
   int (length (filtered db2 (search_criteria (Some ''Bia'') None))) \<le> Query 0 (Some 1) \<and>
   GET_atletas_search rejects_negative (Some ''Bia'') None None (Some 1) db2 =
     (404, Inl (''Nenhum atleta encontrado com o crit'' @ [CHR 0xC3, CHR 0xA9] @
                ''rio fornecido.'')) \<and>
   Query 10 (Some 0) = (0::int) \<and> (0::int) \<le> Query 0 None \<and> Query 0 None \<le> int64_max \<and>
   GET_atletas_search rejects_negative (Some ''Bia'') None (Some 0) None db2 =
     (404, Inl (''Nenhum atleta encontrado com o crit'' @ [CHR 0xC3, CHR 0xA9] @
                ''rio fornecido.''))"
  using search_page_beyond_matches [of None "Some 1" db2 "Some ''Bia''" None rejects_negative]
        search_page_beyond_matches [of "Some 0" None db2 "Some ''Bia''" None rejects_negative]
  by (simp add: sample_defs Query_def int64_max_def filtered_def search_criteria_def truthy_def
      nenhum_atleta_def)

text \<open>
  Claim C10 as stated fails outside those bounds. The search for a name that one row
  carries fails with 500 and not with 404: with offset 1 and limit -1, or limit 0 and
  offset -1, on a store that rejects a negative bound; and with offset \<open>2^63\<close>, which is
  beyond the number of matching rows, on any store.
\<close>

theorem search_bounds_counterexample:
  "filtered db2 (search_criteria (Some ''Bia'') None) = [(1, bia_row)] \<and>
   GET_atletas_search rejects_negative (Some ''Bia'') None (Some (- 1)) (Some 1) db2 =
     (500, Inl ''Internal Server Error'') \<and>
   GET_atletas_search rejects_negative (Some ''Bia'') None (Some 0) (Some (- 1)) db2 =
     (500, Inl ''Internal Server Error'') \<and>
   GET_atletas_search ignores_negative (Some ''Bia'') None None (Some 9223372036854775808) db2 =
     (500, Inl ''Internal Server Error'')"
  by (simp add: GET_atletas_search_def query_by_name_or_cpf_def execute_atleta_def
      limit_offset_def int64_max_def Query_def rejects_negative_def respond_def filtered_def
      sample_defs search_criteria_def truthy_def open_session_def)

subsection \<open>Fetch, delete and partial update by identifier\<close>

lemma filtered_IdEq:
  "filtered d [IdEq u] = filter (\<lambda>(i, a). m_id a = u) (enumerate 0 (atletas d))"
  by (simp add: filtered_def)

text \<open>The row a lookup by identifier loads: the first one of the table that carries it.\<close>

lemma first_by_id_iff:
  "first (filtered d [IdEq u]) = Some (i, a) \<longleftrightarrow>
     i < length (atletas d) \<and> atletas d ! i = a \<and> m_id a = u \<and>
     (\<forall>j<i. m_id (atletas d ! j) \<noteq> u)"
proof -
  let ?xs = "atletas d"
  have "first (filtered d [IdEq u]) = Some (i, a) \<longleftrightarrow>
        (\<exists>k<length ?xs. (k, ?xs ! k) = (i, a) \<and> m_id a = u \<and> (\<forall>j<k. m_id (?xs ! j) \<noteq> u))"
    unfolding filtered_IdEq first_filter_iff
    by (auto simp: nth_enumerate_eq)
  then show ?thesis by auto
qed

lemma first_by_id_None:
  "first (filtered d [IdEq u]) = None \<longleftrightarrow> u \<notin> m_id ` set (atletas d)"
proof -
  have "first (filtered d [IdEq u]) = None \<longleftrightarrow>
        (\<forall>p \<in> set (enumerate 0 (atletas d)). m_id (snd p) \<noteq> u)"
    unfolding filtered_IdEq first_filter_None by (auto simp: case_prod_beta)
  also have "\<dots> \<longleftrightarrow> (\<forall>a \<in> snd ` set (enumerate 0 (atletas d)). m_id a \<noteq> u)"
    by blast
  also have "snd ` set (enumerate 0 (atletas d)) = set (atletas d)"
    by (metis map_snd_enumerate set_map)
  finally show ?thesis by blast
qed

lemma query_by_id_found:
  "first (filtered d [IdEq u]) = Some (i, a) \<Longrightarrow> GET_atleta u d = (200, Inr a)"
  by (simp add: GET_atleta_def query_by_id_def execute_atleta_def respond_def)

lemma query_by_id_absent:
  "u \<notin> m_id ` set (atletas d) \<Longrightarrow> GET_atleta u d = (404, Inl (atleta_nao_encontrado u))"
  using first_by_id_None [of d u]
  by (simp add: GET_atleta_def query_by_id_def execute_atleta_def respond_def)

lemma distinct_remove_nth:
  assumes "distinct (map f xs)" and "i < length xs"
  shows "f (xs ! i) \<notin> f ` set (remove_nth i xs)"
proof -
  have "xs = take i xs @ xs ! i # drop (Suc i) xs"
    using assms(2) by (rule id_take_nth_drop)
  then have "distinct (map f (take i xs @ xs ! i # drop (Suc i) xs))"
    using assms(1) by simp
  then show ?thesis by (auto simp: remove_nth_def)
qed

lemma delete_found:
  assumes "first (filtered d [IdEq u]) = Some (i, a)"
  shows "DELETE_atleta None u d = ((204, Inr ()), d\<lparr>atletas := remove_nth i (atletas d)\<rparr>)"
proof -
  have "i < length (atletas d)" using assms first_by_id_iff by blast
  then show ?thesis using assms
    by (simp add: DELETE_atleta_def delete_def execute_atleta_def delete_obj_def commit_def
        Let_def respond_def open_session_def)
qed

lemma delete_success_store:
  assumes "DELETE_atleta fault u d = ((204, Inr ()), d')"
  shows "\<exists>i a. first (filtered d [IdEq u]) = Some (i, a) \<and>
               d' = d\<lparr>atletas := remove_nth i (atletas d)\<rparr>"
proof (cases "first (filtered d [IdEq u])")
  case None
  then show ?thesis using assms
    by (simp add: DELETE_atleta_def delete_def execute_atleta_def respond_def open_session_def)
next
  case (Some p)
  obtain i a where p: "p = (i, a)" by (cases p)
  have i: "i < length (atletas d)" using Some p first_by_id_iff by blast
  show ?thesis
  proof (cases fault)
    case None
    then show ?thesis using Some p assms delete_found [of d u i a] by auto
  next
    case (Some e)
    then show ?thesis using \<open>first (filtered d [IdEq u]) = Some p\<close> p assms
      by (simp add: DELETE_atleta_def delete_def execute_atleta_def delete_obj_def commit_def
          Let_def respond_def open_session_def)
  qed
qed

text \<open>
  Claim C8. \<^verbatim>\<open>delete\<close> answers 404 when no athlete has the identifier, and 204 when one
  has and the store is healthy. On a store whose identifiers are unique (the invariant
  of the data model), after a delete that answered 204 the lookup of the same identifier
  answers 404.
\<close>

theorem delete_then_fetch_NotFound:
  "(u \<notin> m_id ` set (atletas d) \<longrightarrow>
      DELETE_atleta fault u d = ((404, Inl (atleta_nao_encontrado u)), d)) \<and>
   (u \<in> m_id ` set (atletas d) \<longrightarrow> fst (DELETE_atleta None u d) = (204, Inr ())) \<and>
   (distinct (map m_id (atletas d)) \<and> DELETE_atleta fault u d = ((204, Inr ()), d') \<longrightarrow>
      GET_atleta u d' = (404, Inl (atleta_nao_encontrado u)))"
proof (intro conjI impI)
  assume "u \<notin> m_id ` set (atletas d)"
  then have "first (filtered d [IdEq u]) = None"
    using first_by_id_None [of d u] by blast
  then show "DELETE_atleta fault u d = ((404, Inl (atleta_nao_encontrado u)), d)"
    by (simp add: DELETE_atleta_def delete_def execute_atleta_def respond_def)
next
  assume "u \<in> m_id ` set (atletas d)"
  then have "first (filtered d [IdEq u]) \<noteq> None"
    using first_by_id_None [of d u] by blast
  then obtain p where p: "first (filtered d [IdEq u]) = Some p"
    by (cases "first (filtered d [IdEq u])") simp_all
  obtain i a where "p = (i, a)" by (cases p)
  with p have "first (filtered d [IdEq u]) = Some (i, a)" by simp
  then have "DELETE_atleta None u d = ((204, Inr ()), d\<lparr>atletas := remove_nth i (atletas d)\<rparr>)"
    by (rule delete_found)
  then show "fst (DELETE_atleta None u d) = (204, Inr ())" by simp
next
  assume a: "distinct (map m_id (atletas d)) \<and> DELETE_atleta fault u d = ((204, Inr ()), d')"
  then have dist: "distinct (map m_id (atletas d))"
    and del: "DELETE_atleta fault u d = ((204, Inr ()), d')" by simp_all
  from delete_success_store [OF del] obtain i a
    where f: "first (filtered d [IdEq u]) = Some (i, a)"
      and d': "d' = d\<lparr>atletas := remove_nth i (atletas d)\<rparr>"
    by (elim exE conjE)
  from f have i: "i < length (atletas d)" and u: "m_id (atletas d ! i) = u"
    by (simp_all add: first_by_id_iff)
  have "m_id (atletas d ! i) \<notin> m_id ` set (remove_nth i (atletas d))"
    using dist i by (rule distinct_remove_nth)
  then have "u \<notin> m_id ` set (remove_nth i (atletas d))" unfolding u .
  then have "u \<notin> m_id ` set (atletas d')" by (simp add: d')
  then show "GET_atleta u d' = (404, Inl (atleta_nao_encontrado u))"
    by (rule query_by_id_absent)
qed

text \<open>
  The theorem at the delete of an unknown identifier, and at the delete of the second
  athlete of the sample store followed by its lookup.
\<close>

theorem delete_then_fetch_NotFound_witness:
  "7 \<notin> m_id ` set (atletas db2) \<and>
   DELETE_atleta None 7 db2 = ((404, Inl (atleta_nao_encontrado 7)), db2) \<and>
   6 \<in> m_id ` set (atletas db2) \<and>
   distinct (map m_id (atletas db2)) \<and>
   DELETE_atleta None 6 db2 = ((204, Inr ()), db1) \<and>
   GET_atleta 6 db1 = (404, Inl (atleta_nao_encontrado 6))"
proof -
  have absent: "7 \<notin> m_id ` set (atletas db2)" and present: "6 \<in> m_id ` set (atletas db2)"
    and dist: "distinct (map m_id (atletas db2))"
    by (simp_all add: sample_defs)
  have f: "first (filtered db2 [IdEq 6]) = Some (1, bia_row)"
    by (simp add: filtered_def first_def sample_defs)
  have del: "DELETE_atleta None 6 db2 = ((204, Inr ()), db1)"
    using delete_found [OF f] by (simp add: remove_nth_def sample_defs)
  have "DELETE_atleta None 7 db2 = ((404, Inl (atleta_nao_encontrado 7)), db2)"
    using delete_then_fetch_NotFound [of 7 db2 None db1] absent by blast
  moreover have "GET_atleta 6 db1 = (404, Inl (atleta_nao_encontrado 6))"
    using delete_then_fetch_NotFound [of 6 db2 None db1] dist del by blast
  ultimately show ?thesis using absent present dist del by blast
qed

lemma setattr_loop:
  "foldl setattr a (model_dump_exclude_unset up) =
     \<lparr>m_id = m_id a, m_created_at = m_created_at a,
      m_nome = (case up_nome up of None \<Rightarrow> m_nome a | Some v \<Rightarrow> v),
      m_cpf = (case up_cpf up of None \<Rightarrow> m_cpf a | Some v \<Rightarrow> v),
      m_peso = (case up_peso up of None \<Rightarrow> m_peso a | Some v \<Rightarrow> v),
      m_altura = (case up_altura up of None \<Rightarrow> m_altura a | Some v \<Rightarrow> v),
      m_sexo = (case up_sexo up of None \<Rightarrow> m_sexo a | Some v \<Rightarrow> v),
      categoria_id = categoria_id a, centro_treinamento_id = centro_treinamento_id a\<rparr>"
  by (cases a) (simp add: model_dump_exclude_unset_def split: option.splits)

lemma first_by_id_update:
  assumes "first (filtered d [IdEq u]) = Some (i, a)" and "m_id r = u"
  shows "first (filtered (d\<lparr>atletas := (atletas d)[i := r]\<rparr>) [IdEq u]) = Some (i, r)"
proof -
  from assms(1) have i: "i < length (atletas d)"
    and before: "\<forall>j<i. m_id (atletas d ! j) \<noteq> u"
    by (simp_all add: first_by_id_iff)
  have "\<forall>j<i. m_id ((atletas d)[i := r] ! j) \<noteq> u"
  proof (intro allI impI)
    fix j assume "j < i"
    then show "m_id ((atletas d)[i := r] ! j) \<noteq> u" using before by simp
  qed
  then show ?thesis using i assms(2) by (simp add: first_by_id_iff)
qed

text \<open>
  Claim C4, as amended. When the lookup finds the row \<open>a\<close> at position \<open>i\<close>, the store is
  healthy and the body either leaves the national id out, or repeats the one of \<open>a\<close>, or
  gives one that no athlete holds, \<^verbatim>\<open>patch\<close> answers 200 with the row in which every field
  of the body that is present has the value of the body and every other field, the
  identifier, the timestamp and the two foreign keys included, has the value it had in \<open>a\<close>.
  That row has replaced \<open>a\<close> in the store, nothing else has changed, and the lookup of the
  identifier afterwards returns it.
\<close>

theorem patch_applies_present_fields:
  assumes "first (filtered d [IdEq u]) = Some (i, a)"
    and "case up_cpf body of None \<Rightarrow> True
         | Some c \<Rightarrow> c = m_cpf a \<or> c \<notin> m_cpf ` set (atletas d)"
  shows "let r = \<lparr>m_id = m_id a, m_created_at = m_created_at a,
                  m_nome = (case up_nome body of None \<Rightarrow> m_nome a | Some v \<Rightarrow> v),
                  m_cpf = (case up_cpf body of None \<Rightarrow> m_cpf a | Some v \<Rightarrow> v),
                  m_peso = (case up_peso body of None \<Rightarrow> m_peso a | Some v \<Rightarrow> v),
                  m_altura = (case up_altura body of None \<Rightarrow> m_altura a | Some v \<Rightarrow> v),
                  m_sexo = (case up_sexo body of None \<Rightarrow> m_sexo a | Some v \<Rightarrow> v),
                  categoria_id = categoria_id a,
                  centro_treinamento_id = centro_treinamento_id a\<rparr>
         in PATCH_atleta None u body d = ((200, Inr r), d\<lparr>atletas := (atletas d)[i := r]\<rparr>) \<and>
            GET_atleta u (d\<lparr>atletas := (atletas d)[i := r]\<rparr>) = (200, Inr r)"
proof -
  define r where "r = foldl setattr a (model_dump_exclude_unset body)"
  from assms(1) have i: "i < length (atletas d)" and ai: "atletas d ! i = a"
    and u: "m_id a = u"
    by (simp_all add: first_by_id_iff)
  have cpf_r: "m_cpf r = (case up_cpf body of None \<Rightarrow> m_cpf a | Some v \<Rightarrow> v)"
    and id_r: "m_id r = u"
    by (simp_all add: r_def setattr_loop u)
  have ok: "\<not> (m_cpf r \<noteq> m_cpf (atletas d ! i) \<and> m_cpf r \<in> set (map m_cpf (atletas d)))"
    using assms(2) by (cases "up_cpf body") (auto simp: cpf_r ai)
  have nle: "\<not> length (atletas d) \<le> i" using i by simp
  have ac: "apply_change d (Update i r) = Inr (d\<lparr>atletas := (atletas d)[i := r]\<rparr>)"
    using nle ok by (simp only: apply_change.simps if_False)
  have fl: "flush d [Update i r] = Inr (d\<lparr>atletas := (atletas d)[i := r]\<rparr>)"
    by (simp only: flush.simps ac sum.case)
  have cm: "commit None \<lparr>store = d, pending = [Update i r],
                         calls = [Execute (SelectAtleta [IdEq u] None)]\<rparr> =
      (Inr (), \<lparr>store = d\<lparr>atletas := (atletas d)[i := r]\<rparr>, pending = [],
                calls = [Execute (SelectAtleta [IdEq u] None), Commit]\<rparr>)"
    by (simp add: commit_def Let_def fl del: flush.simps)
  have rf: "refresh i \<lparr>store = d\<lparr>atletas := (atletas d)[i := r]\<rparr>, pending = [],
                       calls = [Execute (SelectAtleta [IdEq u] None), Commit]\<rparr> =
      (Inr r, \<lparr>store = d\<lparr>atletas := (atletas d)[i := r]\<rparr>, pending = [],
               calls = [Execute (SelectAtleta [IdEq u] None), Commit, Refresh]\<rparr>)"
    using i by (simp add: refresh_def)
  have "patch None u body (open_session d) =
      (Inr r, \<lparr>store = d\<lparr>atletas := (atletas d)[i := r]\<rparr>, pending = [],
               calls = [Execute (SelectAtleta [IdEq u] None), Commit, Refresh]\<rparr>)"
    using assms(1)
    by (simp add: patch_def execute_atleta_def open_session_def Let_def r_def [symmetric] cm rf)
  then have p: "PATCH_atleta None u body d =
      ((200, Inr r), d\<lparr>atletas := (atletas d)[i := r]\<rparr>)"
    by (simp add: PATCH_atleta_def respond_def)
  have g: "GET_atleta u (d\<lparr>atletas := (atletas d)[i := r]\<rparr>) = (200, Inr r)"
    using first_by_id_update [OF assms(1) id_r] by (rule query_by_id_found)
  show ?thesis
    unfolding Let_def setattr_loop [symmetric] r_def [symmetric] using p g by simp
qed

text \<open>The theorem at a body that gives the weight only.\<close>

theorem patch_applies_present_fields_witness:
  "first (filtered db2 [IdEq 6]) = Some (1, bia_row) \<and>
   PATCH_atleta None 6
     \<lparr>up_nome = None, up_cpf = None, up_peso = Some 70, up_altura = None, up_sexo = None\<rparr> db2 =
     ((200, Inr (bia_row\<lparr>m_peso := 70\<rparr>)), db2\<lparr>atletas := [ana_row, bia_row\<lparr>m_peso := 70\<rparr>]\<rparr>) \<and>
   GET_atleta 6 (db2\<lparr>atletas := [ana_row, bia_row\<lparr>m_peso := 70\<rparr>]\<rparr>) =
     (200, Inr (bia_row\<lparr>m_peso := 70\<rparr>))"
proof -
  have f: "first (filtered db2 [IdEq 6]) = Some (1, bia_row)"
    by (simp add: filtered_def first_def sample_defs)
  show ?thesis
    using patch_applies_present_fields [OF f,
        of "\<lparr>up_nome = None, up_cpf = None, up_peso = Some 70, up_altura = None,
             up_sexo = None\<rparr>"] f
    by (simp add: Let_def sample_defs)
qed

text \<open>
  Claim C4 as stated fails for a body whose national id belongs to another athlete: the
  commit raises \<open>IntegrityError\<close>, which \<^verbatim>\<open>patch\<close> does not handle, the answer is 500 and the
  field is not applied.
\<close>

theorem patch_duplicate_cpf:
  "PATCH_atleta None 6
     \<lparr>up_nome = None, up_cpf = Some ''111'', up_peso = None, up_altura = None,
      up_sexo = None\<rparr> db2 =
     ((500, Inl ''Internal Server Error''), db2)"
  by (simp add: PATCH_atleta_def respond_def patch_def execute_atleta_def open_session_def
      Let_def commit_def model_dump_exclude_unset_def filtered_def first_def sample_defs)

end
